theory Spec2Isabelle
  imports Complex_Main
begin

section \<open>The scoring engine of app/services/scoring.py\<close>

text \<open>
  The module computes seven risk scores from a pandas DataFrame. The embedding keeps the
  structure of the Python: one HOL function per Python function, with the same names, the
  same order of tests and the same constants.

  What the module takes from its libraries is made explicit:
  \<^item> a DataFrame is a list of column names and a list of rows, each row a map from column
    name to cell; a column that a row does not hold reads as the missing value, as pandas
    fills it;
  \<^item> a cell is a string, an integer, a float, the float nan that pandas stores for a
    missing value (an empty CSV cell, a key that a JSON record lacks) or Python's None
    (a JSON null in a column of strings);
  \<^item> a float is a real number or NaN (\<open>fl\<close>); rounding of IEEE doubles and infinities are
    not modelled, NaN and the way Python's \<open>min\<close> and comparisons treat it are;
  \<^item> strings are lists of ASCII characters;
  \<^item> the functions of pandas, numpy, \<open>re\<close> and detoxify whose code is not part of the
    repository (how a float prints, which strings parse as numbers, the regular-expression
    engine, the toxicity classifier), and two results that hang on the doubles themselves
    (the counts of \<open>np.histogram\<close>, whose bin edges are the doubles of \<open>np.linspace\<close>, and
    the direction in which \<open>round\<close> resolves a decimal tie) are the fields of an
    environment \<open>pyenv\<close> that every function takes as its first argument.
\<close>

subsection \<open>Strings\<close>

definition lower_char :: "char \<Rightarrow> char" where
  "lower_char c =
     (case map_of (zip ''ABCDEFGHIJKLMNOPQRSTUVWXYZ'' ''abcdefghijklmnopqrstuvwxyz'') c of
        Some d \<Rightarrow> d
      | None \<Rightarrow> c)"

definition lower :: "string \<Rightarrow> string" where
  \<comment> \<open>\<open>str.lower()\<close>\<close>
  "lower s = map lower_char s"

definition is_space :: "char \<Rightarrow> bool" where
  \<comment> \<open>the ASCII characters for which \<open>str.isspace()\<close> holds\<close>
  "is_space c \<longleftrightarrow>
     c \<in> set [CHR 0x09, CHR 0x0A, CHR 0x0B, CHR 0x0C, CHR 0x0D,
               CHR 0x1C, CHR 0x1D, CHR 0x1E, CHR 0x1F, CHR 0x20]"

definition strip :: "string \<Rightarrow> string" where
  \<comment> \<open>\<open>str.strip()\<close>\<close>
  "strip s = rev (dropWhile is_space (rev (dropWhile is_space s)))"

fun join :: "string \<Rightarrow> string list \<Rightarrow> string" where
  \<comment> \<open>\<open>sep.join(xs)\<close>\<close>
  "join sep [] = []"
| "join sep [x] = x"
| "join sep (x # y # ys) = x @ sep @ join sep (y # ys)"

definition digit_char :: "nat \<Rightarrow> char" where
  "digit_char d = ''0123456789'' ! d"

function str_nat :: "nat \<Rightarrow> string" where
  "str_nat n = (if n < 10 then [digit_char n] else str_nat (n div 10) @ [digit_char (n mod 10)])"
  by pat_completeness auto
termination
  by (relation "measure (\<lambda>n. n)") auto

declare str_nat.simps [simp del]

definition str_int :: "int \<Rightarrow> string" where
  \<comment> \<open>\<open>str(i)\<close> of an integer\<close>
  "str_int i = (if i < 0 then ''-'' else []) @ str_nat (nat \<bar>i\<bar>)"

subsection \<open>Floats with NaN\<close>

datatype fl = NaN | Fin real

fun fl_lt :: "fl \<Rightarrow> fl \<Rightarrow> bool" where
  \<comment> \<open>\<open>a < b\<close>: False when either side is NaN\<close>
  "fl_lt (Fin a) (Fin b) = (a < b)"
| "fl_lt _ _ = False"

fun fl_gt :: "fl \<Rightarrow> fl \<Rightarrow> bool" where
  "fl_gt a b = fl_lt b a"

fun fl_le :: "fl \<Rightarrow> fl \<Rightarrow> bool" where
  \<comment> \<open>\<open>a <= b\<close>: False when either side is NaN\<close>
  "fl_le (Fin a) (Fin b) = (a \<le> b)"
| "fl_le _ _ = False"

fun fl_add :: "fl \<Rightarrow> fl \<Rightarrow> fl" where
  "fl_add (Fin a) (Fin b) = Fin (a + b)"
| "fl_add _ _ = NaN"

fun fl_mul :: "fl \<Rightarrow> fl \<Rightarrow> fl" where
  "fl_mul (Fin a) (Fin b) = Fin (a * b)"
| "fl_mul _ _ = NaN"

fun fl_div :: "fl \<Rightarrow> real \<Rightarrow> fl" where
  \<comment> \<open>division by a non-zero constant\<close>
  "fl_div (Fin a) c = Fin (a / c)"
| "fl_div NaN c = NaN"

definition py_min :: "fl \<Rightarrow> fl \<Rightarrow> fl" where
  \<comment> \<open>the builtin \<open>min(a, b)\<close>: \<open>b\<close> if \<open>b < a\<close>, else \<open>a\<close>; so \<open>min(nan, 1.0)\<close> is nan\<close>
  "py_min a b = (if fl_lt b a then b else a)"

definition in_unit_interval :: "fl \<Rightarrow> bool" where
  \<comment> \<open>\<open>0.0 <= x <= 1.0\<close>\<close>
  "in_unit_interval x \<longleftrightarrow> fl_le (Fin 0) x \<and> fl_le x (Fin 1)"

definition round_nearest :: "bool \<Rightarrow> real \<Rightarrow> int" where
  \<comment> \<open>the nearest integer; \<open>tie_up\<close> decides a tie\<close>
  "round_nearest tie_up y =
     (let f = \<lfloor>y\<rfloor>; d = y - of_int f
      in if d < 1 / 2 then f else if 1 / 2 < d then f + 1 else if tie_up then f + 1 else f)"

subsection \<open>Series statistics\<close>

definition series_mean :: "real list \<Rightarrow> fl" where
  \<comment> \<open>\<open>Series.mean()\<close>: nan on an empty series\<close>
  "series_mean xs = (if xs = [] then NaN else Fin (sum_list xs / real (length xs)))"

definition bool_mean :: "bool list \<Rightarrow> fl" where
  \<comment> \<open>the mean of a boolean series: the fraction of True\<close>
  "bool_mean bs = series_mean (map (\<lambda>b. if b then 1 else 0) bs)"

definition series_std :: "real list \<Rightarrow> fl" where
  \<comment> \<open>\<open>Series.std()\<close>, the sample standard deviation (ddof = 1): nan on fewer than two values\<close>
  "series_std xs =
     (if length xs < 2 then NaN
      else let m = sum_list xs / real (length xs)
           in Fin (sqrt (sum_list (map (\<lambda>x. (x - m)\<^sup>2) xs) / real (length xs - 1))))"

definition series_max :: "real list \<Rightarrow> fl" where
  \<comment> \<open>\<open>Series.max()\<close>: nan on an empty series\<close>
  "series_max xs = (if xs = [] then NaN else Fin (Max (set xs)))"

definition np_mean :: "fl list \<Rightarrow> fl" where
  \<comment> \<open>\<open>np.mean\<close> of a list of floats: nan if the list is empty or holds a nan\<close>
  "np_mean xs = (if xs = [] then NaN else fl_div (foldr fl_add xs (Fin 0)) (real (length xs)))"

subsection \<open>DataFrames and the environment\<close>

datatype cell =
    StrV string
  | IntV int
  | FltV real
  | NullV     \<comment> \<open>the float nan of a missing value\<close>
  | NoneV     \<comment> \<open>Python's None\<close>

fun is_na :: "cell \<Rightarrow> bool" where
  \<comment> \<open>\<open>pd.isna\<close>: nan and None are missing\<close>
  "is_na NullV = True"
| "is_na NoneV = True"
| "is_na c = False"

type_synonym row = "string \<rightharpoonup> cell"

record dataframe =
  columns :: "string list"
  rows :: "row list"

datatype classifier_result =
    ImportError            \<comment> \<open>\<open>from detoxify import Detoxify\<close> fails: not installed\<close>
  | OtherError             \<comment> \<open>loading the model or \<open>predict\<close> raises anything else\<close>
  | Toxicity "fl list"     \<comment> \<open>\<open>results["toxicity"]\<close>\<close>

record pyenv =
  float_str :: "real \<Rightarrow> string"
    \<comment> \<open>\<open>str(x)\<close> of a float\<close>
  str_to_num :: "string \<Rightarrow> real option"
    \<comment> \<open>\<open>pd.to_numeric(s, errors="coerce")\<close> of a string: None when coerced to nan\<close>
  re_search :: "bool \<Rightarrow> string \<Rightarrow> string \<Rightarrow> bool"
    \<comment> \<open>\<open>re.search(pattern, text, flags)\<close> finds a match; the flag is \<open>re.IGNORECASE\<close>\<close>
  np_histogram :: "real list \<Rightarrow> nat \<Rightarrow> nat list"
    \<comment> \<open>\<open>np.histogram(xs, bins=np.linspace(0, 1, buckets + 1))[0]\<close>: the counts of the bins;
        the edges are the doubles of \<open>np.linspace\<close>, not the exact tenths\<close>
  round_tie :: "real \<Rightarrow> bool"
    \<comment> \<open>whether \<open>round(v, 4)\<close> goes up, for the double \<open>v\<close> of a value that lies halfway
        between two multiples of 0.0001\<close>
  detoxify :: "string list \<Rightarrow> classifier_result"
    \<comment> \<open>\<open>Detoxify("original").predict(texts)\<close>\<close>

fun py_round4 :: "pyenv \<Rightarrow> fl \<Rightarrow> fl" where
  \<comment> \<open>\<open>round(x, 4)\<close>: to the nearest multiple of 0.0001; nan stays nan\<close>
  "py_round4 E NaN = NaN"
| "py_round4 E (Fin x) = Fin (of_int (round_nearest (round_tie E x) (x * 10000)) / 10000)"

datatype py_error = KeyError | ClassifierError

definition len :: "dataframe \<Rightarrow> nat" where
  "len df = length (rows df)"

definition get_cell :: "string \<Rightarrow> row \<Rightarrow> cell" where
  "get_cell c r = (case r c of None \<Rightarrow> NullV | Some v \<Rightarrow> v)"

definition col_of_rows :: "row list \<Rightarrow> string \<Rightarrow> cell list" where
  "col_of_rows rs c = map (get_cell c) rs"

definition col_values :: "dataframe \<Rightarrow> string \<Rightarrow> cell list" where
  \<comment> \<open>\<open>df[col]\<close>\<close>
  "col_values df c = col_of_rows (rows df) c"

fun py_str :: "pyenv \<Rightarrow> cell \<Rightarrow> string" where
  "py_str E (StrV s) = s"
| "py_str E (IntV i) = str_int i"
| "py_str E (FltV x) = float_str E x"
| "py_str E NullV = ''nan''"
| "py_str E NoneV = ''None''"

definition astype_str :: "pyenv \<Rightarrow> cell list \<Rightarrow> string list" where
  \<comment> \<open>\<open>series.astype(str)\<close>: nan becomes the string nan, None the string None\<close>
  "astype_str E xs = map (py_str E) xs"

fun num_of :: "pyenv \<Rightarrow> cell \<Rightarrow> real option" where
  "num_of E (StrV s) = str_to_num E s"
| "num_of E (IntV i) = Some (of_int i)"
| "num_of E (FltV x) = Some x"
| "num_of E NullV = None"
| "num_of E NoneV = None"

definition to_numeric_dropna :: "pyenv \<Rightarrow> cell list \<Rightarrow> real list" where
  \<comment> \<open>\<open>pd.to_numeric(series, errors="coerce").dropna()\<close>\<close>
  "to_numeric_dropna E xs = List.map_filter (num_of E) xs"

subsection \<open>Column name aliases\<close>

definition DECISION_COLS :: "string list" where
  "DECISION_COLS = [''decision'', ''prediction'', ''model_decision'', ''output'', ''label'']"

definition CONFIDENCE_COLS :: "string list" where
  "CONFIDENCE_COLS = [''confidence'', ''score'', ''probability'', ''model_confidence'', ''prob'']"

definition GROUND_TRUTH_COLS :: "string list" where
  "GROUND_TRUTH_COLS = [''ground_truth'', ''true_label'', ''actual'', ''expected'', ''correct'']"

definition TEXT_OUTPUT_COLS :: "string list" where
  "TEXT_OUTPUT_COLS =
     [''response'', ''output_text'', ''generated_text'', ''answer'', ''text'', ''model_response'']"

definition GENDER_COLS :: "string list" where
  "GENDER_COLS = [''gender'', ''sex'', ''user_gender'']"

definition RACE_COLS :: "string list" where
  "RACE_COLS = [''race'', ''ethnicity'', ''user_race'', ''race_ethnicity'']"

definition AGE_COLS :: "string list" where
  "AGE_COLS = [''age'', ''user_age'', ''age_group'']"

definition PROMPT_COLS :: "string list" where
  \<comment> \<open>the literal list in \<open>compute_robustness_score\<close>\<close>
  "PROMPT_COLS = [''prompt'', ''input'', ''query'', ''question'']"

definition EXPLANATION_COLS :: "string list" where
  \<comment> \<open>the literal list in \<open>compute_explainability_score\<close>\<close>
  "EXPLANATION_COLS =
     [''explanation'', ''reasoning'', ''reason'', ''shap_value'', ''feature_importance'']"

subsection \<open>The column resolver\<close>

definition lower_cols :: "string list \<Rightarrow> (string \<rightharpoonup> string)" where
  \<comment> \<open>\<open>{c.lower(): c for c in df.columns}\<close>: a later column overwrites an earlier one\<close>
  "lower_cols cols = fold (\<lambda>c m. m(lower c \<mapsto> c)) cols Map.empty"

fun find_in :: "(string \<rightharpoonup> string) \<Rightarrow> string list \<Rightarrow> py_error + string option" where
  \<comment> \<open>the loop over the candidates; \<open>lower_cols[k]\<close> raises KeyError on a missing key\<close>
  "find_in m [] = Inr None"
| "find_in m (c # cs) =
     (if lower c \<in> dom m
      then (case m (lower c) of None \<Rightarrow> Inl KeyError | Some x \<Rightarrow> Inr (Some x))
      else find_in m cs)"

definition find_col_exc :: "dataframe \<Rightarrow> string list \<Rightarrow> py_error + string option" where
  \<comment> \<open>\<open>_find_col\<close>, with its possible exception\<close>
  "find_col_exc df candidates = find_in (lower_cols (columns df)) candidates"

definition find_col :: "dataframe \<Rightarrow> string list \<Rightarrow> string option" where
  \<comment> \<open>\<open>_find_col\<close> as its callers use it; \<open>find_col_exc_total\<close> shows that no exception is lost\<close>
  "find_col df candidates = (case find_col_exc df candidates of Inr r \<Rightarrow> r | Inl e \<Rightarrow> None)"

definition truthy :: "string option \<Rightarrow> bool" where
  \<comment> \<open>\<open>if col:\<close> on an \<open>Optional[str]\<close>: None and the empty string are false\<close>
  "truthy c \<longleftrightarrow> (case c of None \<Rightarrow> False | Some s \<Rightarrow> s \<noteq> [])"

subsection \<open>1. Bias score\<close>

definition positive_terms :: "string list" where
  \<comment> \<open>the set literal in \<open>compute_bias_score\<close>\<close>
  "positive_terms = [''approved'', ''yes'', ''accept'', ''1'', ''true'', ''positive'', ''pass'']"

definition unique :: "'a list \<Rightarrow> 'a list" where
  \<comment> \<open>\<open>Series.unique()\<close>: the distinct values in order of first appearance\<close>
  "unique xs = rev (remdups (rev xs))"

definition group_rates :: "string list \<Rightarrow> real list \<Rightarrow> real list" where
  \<comment> \<open>the values of the dict \<open>group_rates\<close>: the mean decision of every group of at least
      five rows (the mean is over a non-empty selection)\<close>
  "group_rates groups binary_decisions =
     map (\<lambda>g. let sel = map snd (filter (\<lambda>(g', b). g' = g) (zip groups binary_decisions))
               in sum_list sel / real (length sel))
         (filter (\<lambda>g. \<not> length (filter (\<lambda>g'. g' = g) groups) < 5) (unique groups))"

definition fallback_bias :: "pyenv \<Rightarrow> dataframe \<Rightarrow> fl" where
  \<comment> \<open>\<open>_fallback_bias\<close>\<close>
  "fallback_bias E df =
     (let conf_col = find_col df CONFIDENCE_COLS
      in if truthy conf_col
         then (let conf = to_numeric_dropna E (col_values df (the conf_col))
               in py_min (fl_mul (series_std conf) (Fin 2)) (Fin 1))
         else Fin 0.3)"

definition protected_gap :: "pyenv \<Rightarrow> dataframe \<Rightarrow> real list \<Rightarrow> string list \<Rightarrow> real list" where
  \<comment> \<open>one turn of the loop over the protected attributes: what it appends to \<open>gaps\<close>\<close>
  "protected_gap E df binary_decisions candidates =
     (case find_col df candidates of
        None \<Rightarrow> []
      | Some col \<Rightarrow>
          (let groups = map (\<lambda>s. strip (lower s)) (astype_str E (col_values df col));
               rates = group_rates groups binary_decisions
           in if 2 \<le> length rates then [Max (set rates) - Min (set rates)] else []))"

definition compute_bias_score :: "pyenv \<Rightarrow> dataframe \<Rightarrow> fl" where
  "compute_bias_score E df =
     (let decision_col = find_col df DECISION_COLS
      in if \<not> truthy decision_col then fallback_bias E df
         else
           (let decisions = map (\<lambda>s. strip (lower s))
                              (astype_str E (col_values df (the decision_col)));
                binary_decisions = map (\<lambda>d. if d \<in> set positive_terms then 1 else 0) decisions;
                gaps = concat (map (protected_gap E df binary_decisions)
                                 [GENDER_COLS, RACE_COLS, AGE_COLS])
            in if gaps \<noteq> [] then py_min (fl_div (series_mean gaps) 0.4) (Fin 1)
               else fallback_bias E df))"

subsection \<open>2. Hallucination score\<close>

definition rescale :: "real list \<Rightarrow> real list" where
  \<comment> \<open>\<open>if conf.max() > 1.0: conf = conf / 100.0\<close>\<close>
  "rescale conf = (if fl_gt (series_max conf) (Fin 1) then map (\<lambda>x. x / 100) conf else conf)"

definition compute_hallucination_score :: "pyenv \<Rightarrow> dataframe \<Rightarrow> fl" where
  "compute_hallucination_score E df =
     (let decision_col = find_col df DECISION_COLS;
          ground_truth_col = find_col df GROUND_TRUTH_COLS
      in if truthy decision_col \<and> truthy ground_truth_col
         then (let predictions = map (\<lambda>s. strip (lower s))
                                   (astype_str E (col_values df (the decision_col)));
                   ground_truth = map (\<lambda>s. strip (lower s))
                                   (astype_str E (col_values df (the ground_truth_col)))
               in bool_mean (map (\<lambda>(p, g). p \<noteq> g) (zip predictions ground_truth)))
         else
           (let conf_col = find_col df CONFIDENCE_COLS
            in if truthy conf_col
               then (let conf = rescale (to_numeric_dropna E (col_values df (the conf_col)))
                     in bool_mean (map (\<lambda>x. x < 0.6) conf))
               else Fin 0.3))"

subsection \<open>3. Toxicity score\<close>

definition bs :: string where
  \<comment> \<open>the backslash of the raw pattern strings\<close>
  "bs = [CHR 0x5C]"

definition toxic_patterns :: "string list" where
  "toxic_patterns =
     [bs @ ''b(hate|kill|attack|threat|abuse|harass|discriminat|racist|sexist)'' @ bs @ ''b'',
      bs @ ''b(idiot|stupid|moron|dumb|worthless|loser)'' @ bs @ ''b'',
      bs @ ''b(bomb|weapon|violence|murder)'' @ bs @ ''b'']"

definition combined_pattern :: string where
  "combined_pattern = join ''|'' toxic_patterns"

definition nonempty_texts :: "pyenv \<Rightarrow> dataframe \<Rightarrow> string \<Rightarrow> string list" where
  \<comment> \<open>\<open>[t for t in texts if t.strip() and t.lower() != "nan"]\<close>\<close>
  "nonempty_texts E df text_col =
     filter (\<lambda>t. strip t \<noteq> [] \<and> lower t \<noteq> ''nan'') (astype_str E (col_values df text_col))"

definition keyword_rate :: "pyenv \<Rightarrow> string list \<Rightarrow> fl" where
  \<comment> \<open>the regex fallback: \<open>toxic_count / len(texts)\<close>, on a non-empty list\<close>
  "keyword_rate E texts =
     (let toxic_count = length (filter (\<lambda>t. re_search E True combined_pattern t) texts)
      in Fin (real toxic_count / real (length texts)))"

definition compute_toxicity_score :: "pyenv \<Rightarrow> dataframe \<Rightarrow> py_error + fl" where
  \<comment> \<open>only ImportError is caught by the \<open>try\<close>; any other exception of the classifier leaves
      the function\<close>
  "compute_toxicity_score E df =
     (let text_col = find_col df TEXT_OUTPUT_COLS
      in if \<not> truthy text_col then Inr (Fin 0.1)
         else
           (let texts = nonempty_texts E df (the text_col)
            in if texts = [] then Inr (Fin 0.1)
               else (case detoxify E (take 200 texts) of
                       Toxicity toxicity_scores \<Rightarrow> Inr (np_mean toxicity_scores)
                     | OtherError \<Rightarrow> Inl ClassifierError
                     | ImportError \<Rightarrow> Inr (keyword_rate E texts))))"

subsection \<open>4. Robustness score\<close>

fun cell_key :: "cell \<Rightarrow> cell" where
  \<comment> \<open>Python compares and hashes an integer and the float of the same value as equal\<close>
  "cell_key (IntV i) = FltV (of_int i)"
| "cell_key c = c"

definition nunique :: "cell list \<Rightarrow> nat" where
  \<comment> \<open>\<open>Series.nunique()\<close>: the number of distinct values, missing values not counted\<close>
  "nunique cs = length (remdups (map cell_key (filter (\<lambda>c. \<not> is_na c) cs)))"

definition groupby_nunique :: "string list \<Rightarrow> cell list \<Rightarrow> nat list" where
  \<comment> \<open>\<open>df.groupby(keys)[col].nunique()\<close>: one count for every distinct key\<close>
  "groupby_nunique keys vals =
     map (\<lambda>k. nunique (map snd (filter (\<lambda>(k', v). k' = k) (zip keys vals)))) (unique keys)"

definition non_deterministic_rate :: "pyenv \<Rightarrow> dataframe \<Rightarrow> string \<Rightarrow> string \<Rightarrow> fl" where
  \<comment> \<open>\<open>grouped = df.groupby(df[prompt_col].astype(str))[decision_col].nunique()\<close> and
      \<open>(grouped > 1).mean()\<close>\<close>
  "non_deterministic_rate E df prompt_col decision_col =
     (let grouped = groupby_nunique (astype_str E (col_values df prompt_col))
                      (col_values df decision_col)
      in bool_mean (map (\<lambda>n. 1 < n) grouped))"

definition confidence_signals :: "pyenv \<Rightarrow> dataframe \<Rightarrow> fl list" where
  \<comment> \<open>the first block of \<open>compute_robustness_score\<close>: what it appends to \<open>scores\<close>\<close>
  "confidence_signals E df =
     (let conf_col = find_col df CONFIDENCE_COLS
      in if truthy conf_col
         then (let conf = rescale (to_numeric_dropna E (col_values df (the conf_col)));
                   variance_score = py_min (fl_mul (series_std conf) (Fin 3)) (Fin 1);
                   low_conf = bool_mean (map (\<lambda>x. x < 0.55) conf)
               in [variance_score, low_conf])
         else [])"

definition compute_robustness_score :: "pyenv \<Rightarrow> dataframe \<Rightarrow> fl" where
  "compute_robustness_score E df =
     (let scores1 = confidence_signals E df;
          prompt_col = find_col df PROMPT_COLS;
          decision_col = find_col df DECISION_COLS;
          scores =
            (if truthy prompt_col \<and> truthy decision_col
             then scores1 @ [non_deterministic_rate E df (the prompt_col) (the decision_col)]
             else scores1)
      in if scores \<noteq> [] then np_mean scores else Fin 0.4)"

subsection \<open>5. Explainability score\<close>

definition has_explanation :: "pyenv \<Rightarrow> dataframe \<Rightarrow> string \<Rightarrow> fl" where
  \<comment> \<open>the fraction of rows whose stripped explanation is longer than five characters;
      \<open>notna()\<close> holds of every string\<close>
  "has_explanation E df explanation_col =
     (let explanations = map strip (astype_str E (col_values df explanation_col))
      in bool_mean (map (\<lambda>e. e \<noteq> [] \<and> 5 < length e) explanations))"

definition confidence_explainability :: "pyenv \<Rightarrow> dataframe \<Rightarrow> fl" where
  \<comment> \<open>what \<open>compute_explainability_score\<close> does after the explanation test\<close>
  "confidence_explainability E df =
     (let conf_col = find_col df CONFIDENCE_COLS
      in if truthy conf_col
         then (let conf = rescale (to_numeric_dropna E (col_values df (the conf_col)));
                   near_50_pct = bool_mean (map (\<lambda>x. 0.45 < x \<and> x < 0.55) conf);
                   variance_penalty = py_min (fl_mul (series_std conf) (Fin 2)) (Fin 0.5);
                   score = fl_add (fl_mul near_50_pct (Fin 0.6)) variance_penalty
               in py_min score (Fin 1))
         else Fin 0.75)"

definition compute_explainability_score :: "pyenv \<Rightarrow> dataframe \<Rightarrow> fl" where
  "compute_explainability_score E df =
     (let explanation_col = find_col df EXPLANATION_COLS
      in if truthy explanation_col \<and>
            fl_gt (has_explanation E df (the explanation_col)) (Fin 0.8)
         then Fin 0.15
         else confidence_explainability E df)"

subsection \<open>6. Data leakage score\<close>

definition pii_patterns :: "string list" where
  "pii_patterns =
     [''[a-zA-Z0-9._%+-]+@[a-zA-Z0-9.-]+'' @ bs @ ''.[a-zA-Z]{2,}'',
      bs @ ''b'' @ bs @ ''d{3}[-.'' @ bs @ ''s]?'' @ bs @ ''d{3}[-.'' @ bs @ ''s]?''
        @ bs @ ''d{4}'' @ bs @ ''b'',
      bs @ ''b'' @ bs @ ''d{4}[- ]?'' @ bs @ ''d{4}[- ]?'' @ bs @ ''d{4}[- ]?''
        @ bs @ ''d{4}'' @ bs @ ''b'',
      bs @ ''b'' @ bs @ ''d{3}-'' @ bs @ ''d{2}-'' @ bs @ ''d{4}'' @ bs @ ''b'',
      bs @ ''b(?:'' @ bs @ ''d{1,3}'' @ bs @ ''.){3}'' @ bs @ ''d{1,3}'' @ bs @ ''b'',
      bs @ ''b[A-Z]{2}'' @ bs @ ''d{6}[A-Z]'' @ bs @ ''b'',
      bs @ ''b(password|passwd|secret|api_key|api-key|token)'' @ bs @ ''s*[:=]''
        @ bs @ ''s*'' @ bs @ ''S+'']"

definition compute_data_leakage_score :: "pyenv \<Rightarrow> dataframe \<Rightarrow> fl" where
  "compute_data_leakage_score E df =
     (let text_col = find_col df TEXT_OUTPUT_COLS
      in if \<not> truthy text_col then Fin 0.1
         else
           (let texts = astype_str E (col_values df (the text_col));
                leakage_count =
                  length (filter (\<lambda>text. list_ex (\<lambda>pattern. re_search E False pattern text)
                                            pii_patterns) texts)
            in Fin (real leakage_count / real (max (length texts) 1))))"

subsection \<open>7. Drift score\<close>

definition drift_positive_terms :: "string list" where
  \<comment> \<open>the set literal in \<open>compute_drift_score\<close>\<close>
  "drift_positive_terms = [''approved'', ''yes'', ''accept'', ''1'', ''true'', ''positive'']"

definition bucket_pct :: "pyenv \<Rightarrow> real list \<Rightarrow> nat \<Rightarrow> real list" where
  \<comment> \<open>\<open>np.histogram(xs, bins=breakpoints)[0] / len(xs)\<close>, a zero replaced by 0.0001; for a
      non-empty sample\<close>
  "bucket_pct E xs buckets =
     map (\<lambda>c. let p = real c / real (length xs) in if p = 0 then 0.0001 else p)
         (np_histogram E xs buckets)"

definition compute_psi :: "pyenv \<Rightarrow> real list \<Rightarrow> real list \<Rightarrow> nat \<Rightarrow> fl" where
  \<comment> \<open>\<open>_compute_psi\<close>: on an empty sample numpy's 0/0 makes every frequency, and the sum, nan\<close>
  "compute_psi E expected actual buckets =
     (if expected = [] \<or> actual = [] then NaN
      else (let expected_pct = bucket_pct E expected buckets;
                actual_pct = bucket_pct E actual buckets
            in Fin (sum_list (map (\<lambda>(a, e). (a - e) * ln (a / e))
                               (zip actual_pct expected_pct)))))"

fun fl_abs_diff :: "fl \<Rightarrow> fl \<Rightarrow> fl" where
  \<comment> \<open>\<open>abs(a - b)\<close>\<close>
  "fl_abs_diff (Fin a) (Fin b) = Fin \<bar>a - b\<bar>"
| "fl_abs_diff _ _ = NaN"

definition drift_positive_rate :: "pyenv \<Rightarrow> row list \<Rightarrow> string \<Rightarrow> fl" where
  \<comment> \<open>\<open>half[decision_col].astype(str).str.lower().isin(positive_terms).mean()\<close>\<close>
  "drift_positive_rate E half decision_col =
     bool_mean (map (\<lambda>s. lower s \<in> set drift_positive_terms)
                  (astype_str E (col_of_rows half decision_col)))"

definition compute_drift_score :: "pyenv \<Rightarrow> dataframe \<Rightarrow> fl" where
  "compute_drift_score E df =
     (let conf_col = find_col df CONFIDENCE_COLS;
          decision_col = find_col df DECISION_COLS
      in if len df < 20 then Fin 0.2
         else
           (let mid = len df div 2;
                baseline = take mid (rows df);
                current = drop mid (rows df)
            in if truthy conf_col
               then (let conf_base = rescale (to_numeric_dropna E
                                        (col_of_rows baseline (the conf_col)));
                         conf_curr = rescale (to_numeric_dropna E
                                        (col_of_rows current (the conf_col)));
                         psi = compute_psi E conf_base conf_curr 10
                     in py_min (fl_div psi 0.25) (Fin 1))
               else if truthy decision_col
               then (let base_rate = drift_positive_rate E baseline (the decision_col);
                         curr_rate = drift_positive_rate E current (the decision_col);
                         shift = fl_abs_diff curr_rate base_rate
                     in py_min (fl_div shift 0.2) (Fin 1))
               else Fin 0.25))"

subsection \<open>The master function\<close>

definition round_all :: "pyenv \<Rightarrow> (string \<times> fl) list \<Rightarrow> (string \<times> fl) list" where
  \<comment> \<open>\<open>{k: round(float(v), 4) for k, v in scores.items()}\<close>\<close>
  "round_all E scores = map (\<lambda>(k, v). (k, py_round4 E v)) scores"

definition compute_all_scores :: "pyenv \<Rightarrow> dataframe \<Rightarrow> py_error + (string \<times> fl) list" where
  \<comment> \<open>the dict, in insertion order; an exception of the toxicity score leaves the function\<close>
  "compute_all_scores E df =
     (case compute_toxicity_score E df of
        Inl e \<Rightarrow> Inl e
      | Inr toxicity \<Rightarrow>
          Inr (round_all E
                 [(''bias'', compute_bias_score E df),
                  (''hallucination'', compute_hallucination_score E df),
                  (''toxicity'', toxicity),
                  (''robustness'', compute_robustness_score E df),
                  (''explainability'', compute_explainability_score E df),
                  (''data_leakage'', compute_data_leakage_score E df),
                  (''drift'', compute_drift_score E df)]))"

subsection \<open>What the toxicity classifier does in a run\<close>

definition classifier_raises :: "pyenv \<Rightarrow> dataframe \<Rightarrow> bool" where
  \<comment> \<open>the run on \<open>df\<close> reaches the \<open>try\<close> block, and the classifier raises an error that is
      not ImportError\<close>
  "classifier_raises E df \<longleftrightarrow>
     (let text_col = find_col df TEXT_OUTPUT_COLS
      in truthy text_col \<and> nonempty_texts E df (the text_col) \<noteq> [] \<and>
         detoxify E (take 200 (nonempty_texts E df (the text_col))) = OtherError)"



subsection \<open>The specification's reading of two signals\<close>

text \<open>
  Two definitions that follow the words of the specification instead of the code, to
  compare them with the code. Section 4.8 computes the decision drift with "the same
  positive-outcome lexicon" and normalisation (trim, lowercase) as the bias metric;
  section 4.5 groups the rows "by normalized prompt text".
\<close>

definition spec_positive_rate :: "pyenv \<Rightarrow> row list \<Rightarrow> string \<Rightarrow> fl" where
  "spec_positive_rate E half decision_col =
     bool_mean (map (\<lambda>s. strip (lower s) \<in> set positive_terms)
                  (astype_str E (col_of_rows half decision_col)))"

definition spec_decision_drift :: "pyenv \<Rightarrow> dataframe \<Rightarrow> string \<Rightarrow> fl" where
  "spec_decision_drift E df decision_col =
     (let mid = len df div 2;
          base_rate = spec_positive_rate E (take mid (rows df)) decision_col;
          curr_rate = spec_positive_rate E (drop mid (rows df)) decision_col
      in py_min (fl_div (fl_abs_diff curr_rate base_rate) 0.2) (Fin 1))"

definition spec_non_deterministic_rate ::
  "pyenv \<Rightarrow> dataframe \<Rightarrow> string \<Rightarrow> string \<Rightarrow> fl" where
  "spec_non_deterministic_rate E df prompt_col decision_col =
     (let grouped = groupby_nunique
                      (map (\<lambda>s. strip (lower s)) (astype_str E (col_values df prompt_col)))
                      (col_values df decision_col)
      in bool_mean (map (\<lambda>n. 1 < n) grouped))"

text \<open>
  The groups the code forms, as sets: the rows of a group share the prompt string as
  \<open>astype(str)\<close> renders it, and the decisions of a group are its distinct values that are
  not missing.
\<close>

definition group_decisions :: "string list \<Rightarrow> cell list \<Rightarrow> string \<Rightarrow> cell set" where
  "group_decisions keys vals k =
     {cell_key (vals ! i) | i. i < length keys \<and> i < length vals \<and> keys ! i = k \<and>
                               \<not> is_na (vals ! i)}"

definition split_group_fraction :: "string list \<Rightarrow> cell list \<Rightarrow> fl" where
  "split_group_fraction keys vals =
     (if keys = [] then NaN
      else Fin (real (card {k \<in> set keys. 1 < card (group_decisions keys vals k)}) /
                real (card (set keys))))"

subsection \<open>Example environments and datasets\<close>

fun contains :: "string \<Rightarrow> string \<Rightarrow> bool" where
  "contains w [] = (w = [])"
| "contains w (c # cs) = (take (length w) (c # cs) = w \<or> contains w cs)"

definition exact_histogram :: "real list \<Rightarrow> nat \<Rightarrow> nat list" where
  \<comment> \<open>a histogram over the exact edges k / buckets: bins closed on the left, the last one
      closed on both sides\<close>
  "exact_histogram xs buckets =
     map (\<lambda>k. length (filter (\<lambda>x. real k / real buckets \<le> x \<and>
                                   (if Suc k = buckets then x \<le> 1
                                    else x < real (Suc k) / real buckets)) xs))
         [0..<buckets]"

definition example_env :: pyenv where
  \<comment> \<open>detoxify is not installed; the matcher is a stand-in that finds the word kill, the
      histogram and the ties are stand-ins too\<close>
  "example_env =
     \<lparr>float_str = (\<lambda>x. ''0.5''),
      str_to_num = (\<lambda>s. None),
      re_search = (\<lambda>icase pattern text. contains ''kill'' (if icase then lower text else text)),
      np_histogram = exact_histogram,
      round_tie = (\<lambda>x. True),
      detoxify = (\<lambda>texts. ImportError)\<rparr>"

definition failing_env :: pyenv where
  \<comment> \<open>detoxify is installed and raises an error that is not ImportError\<close>
  "failing_env = example_env\<lparr>detoxify := (\<lambda>texts. OtherError)\<rparr>"



definition single_confidence_df :: dataframe where
  \<comment> \<open>one row, one column: confidence = 0.9\<close>
  "single_confidence_df =
     \<lparr>columns = [''confidence''], rows = [[''confidence'' \<mapsto> FltV 0.9]]\<rparr>"

definition response_df :: dataframe where
  "response_df =
     \<lparr>columns = [''response''],
      rows = [[''response'' \<mapsto> StrV ''I recommend approval.''],
              [''response'' \<mapsto> StrV ''They will kill the deal.'']]\<rparr>"


definition nineteen_rows_df :: dataframe where
  "nineteen_rows_df =
     \<lparr>columns = [''decision'', ''confidence''],
      rows = replicate 19 [''decision'' \<mapsto> StrV ''approved'', ''confidence'' \<mapsto> FltV 0.5]\<rparr>"

definition pass_then_rejected_df :: dataframe where
  \<comment> \<open>twenty rows: ten decisions pass, then ten decisions rejected\<close>
  "pass_then_rejected_df =
     \<lparr>columns = [''decision''],
      rows = replicate 10 [''decision'' \<mapsto> StrV ''pass''] @
             replicate 10 [''decision'' \<mapsto> StrV ''rejected'']\<rparr>"

definition four_of_five_df :: dataframe where
  \<comment> \<open>five rows, four of them with an explanation: exactly 80 per cent\<close>
  "four_of_five_df =
     \<lparr>columns = [''explanation''],
      rows = replicate 4 [''explanation'' \<mapsto> StrV ''income above threshold''] @
             [[''explanation'' \<mapsto> StrV []]]\<rparr>"

definition five_of_five_df :: dataframe where
  "five_of_five_df =
     \<lparr>columns = [''explanation'', ''confidence''],
      rows = replicate 5 [''explanation'' \<mapsto> StrV ''income above threshold'',
                          ''confidence'' \<mapsto> FltV 0.5]\<rparr>"

definition same_prompt_df :: dataframe where
  \<comment> \<open>the same prompt up to letter case, with two different decisions\<close>
  "same_prompt_df =
     \<lparr>columns = [''prompt'', ''decision''],
      rows = [[''prompt'' \<mapsto> StrV ''Approve the loan?'', ''decision'' \<mapsto> StrV ''yes''],
              [''prompt'' \<mapsto> StrV ''approve the loan?'', ''decision'' \<mapsto> StrV ''no'']]\<rparr>"

definition mixed_case_df :: dataframe where
  \<comment> \<open>two column names that are equal after lowercasing\<close>
  "mixed_case_df = \<lparr>columns = [''Decision'', ''label'', ''DECISION''], rows = []\<rparr>"

section \<open>Properties\<close>

subsection \<open>Evaluation helpers\<close>

lemma py_round4_consts:
  "py_round4 E (Fin 0) = Fin 0" "py_round4 E (Fin 1) = Fin 1"
  "py_round4 E (Fin 0.1) = Fin 0.1" "py_round4 E (Fin 0.2) = Fin 0.2"
  by (simp_all add: round_nearest_def Let_def)

lemma py_str_env [simp]:
  "py_str (E\<lparr>detoxify := c\<rparr>) x = py_str E x" "py_str (E\<lparr>re_search := m\<rparr>) x = py_str E x"
  by (cases x; simp)+

lemma astype_str_env [simp]:
  "astype_str (E\<lparr>detoxify := c\<rparr>) xs = astype_str E xs"
  "astype_str (E\<lparr>re_search := m\<rparr>) xs = astype_str E xs"
  by (simp_all add: astype_str_def)

lemma num_of_env [simp]: "num_of (E\<lparr>detoxify := c\<rparr>) = num_of E"
proof
  fix x show "num_of (E\<lparr>detoxify := c\<rparr>) x = num_of E x"
    by (cases x) simp_all
qed

lemma to_numeric_dropna_env [simp]:
  "to_numeric_dropna (E\<lparr>detoxify := c\<rparr>) xs = to_numeric_dropna E xs"
  by (simp add: to_numeric_dropna_def)


lemma py_round4_env [simp]: "py_round4 (E\<lparr>detoxify := c\<rparr>) x = py_round4 E x"
  by (cases x) simp_all

subsection \<open>The column resolver\<close>

lemma length_lower [simp]: "length (lower s) = length s"
  by (simp add: lower_def)

lemma fold_lower_cols:
  "fold (\<lambda>c m. m(lower c \<mapsto> c)) cols m k =
     (case filter (\<lambda>x. lower x = k) cols of [] \<Rightarrow> m k | xs \<Rightarrow> Some (last xs))"
  by (induction cols arbitrary: m) (auto split: list.splits)

lemma lower_cols_lookup:
  "lower_cols cols k =
     (case filter (\<lambda>x. lower x = k) cols of [] \<Rightarrow> None | xs \<Rightarrow> Some (last xs))"
  by (simp add: lower_cols_def fold_lower_cols)

lemma dom_lower_cols: "dom (lower_cols cols) = lower ` set cols"
  by (auto simp: dom_def lower_cols_lookup filter_empty_conv split: list.splits)

lemma find_in_find:
  "find_in m cands =
     Inr (case List.find (\<lambda>c. lower c \<in> dom m) cands of
            None \<Rightarrow> None
          | Some c \<Rightarrow> m (lower c))"
  by (induction cands) (auto split: option.splits)

lemma find_col_exc_total: "find_col_exc df candidates = Inr (find_col df candidates)"
  by (simp add: find_col_def find_col_exc_def find_in_find)

lemma find_col_Some:
  assumes "find_col df candidates = Some col"
  shows "\<exists>c \<in> set candidates. lower col = lower c \<and> col \<in> set (columns df)"
proof -
  from assms obtain c where c: "List.find (\<lambda>c. lower c \<in> dom (lower_cols (columns df))) candidates = Some c"
    and l: "lower_cols (columns df) (lower c) = Some col"
    by (auto simp: find_col_def find_col_exc_def find_in_find split: option.splits)
  from l have "filter (\<lambda>x. lower x = lower c) (columns df) \<noteq> []"
    and "col = last (filter (\<lambda>x. lower x = lower c) (columns df))"
    by (auto simp: lower_cols_lookup split: list.splits)
  then have "col \<in> set (filter (\<lambda>x. lower x = lower c) (columns df))"
    using last_in_set by blast
  moreover from c have "c \<in> set candidates"
    by (auto simp: find_Some_iff)
  ultimately show ?thesis by auto
qed

lemma find_col_nonempty:
  assumes "find_col df candidates = Some col" and "[] \<notin> set candidates"
  shows "col \<noteq> []"
proof -
  from find_col_Some [OF assms(1)] obtain c where "c \<in> set candidates" "lower col = lower c"
    by blast
  with assms(2) have "length (lower col) \<noteq> 0" by auto
  then show ?thesis by auto
qed

lemma find_col_truthy:
  assumes "find_col df candidates = Some col" and "[] \<notin> set candidates"
  shows "truthy (find_col df candidates)"
  using find_col_nonempty [OF assms] assms(1) by (simp add: truthy_def)

lemma no_empty_alias:
  "[] \<notin> set DECISION_COLS" "[] \<notin> set CONFIDENCE_COLS" "[] \<notin> set GROUND_TRUTH_COLS"
  "[] \<notin> set TEXT_OUTPUT_COLS" "[] \<notin> set PROMPT_COLS" "[] \<notin> set EXPLANATION_COLS"
  by (simp_all add: DECISION_COLS_def CONFIDENCE_COLS_def GROUND_TRUTH_COLS_def
        TEXT_OUTPUT_COLS_def PROMPT_COLS_def EXPLANATION_COLS_def)

text \<open>
  C10. For every schema and every candidate list, \<open>_find_col\<close> returns without raising
  (the result is never the KeyError that \<open>lower_cols[c.lower()]\<close> could raise). It honours
  the priority order of the aliases: the result is decided by the first candidate whose
  lowercase form is the lowercase form of some column. Where several column names are equal
  after lowercasing, it resolves that candidate to the one that comes last in the column
  order, because later names overwrite earlier ones in the lowercase index.
\<close>

theorem find_col_resolves_last:
  "find_col_exc df candidates =
     Inr (case List.find (\<lambda>c. lower c \<in> lower ` set (columns df)) candidates of
            None \<Rightarrow> None
          | Some c \<Rightarrow> Some (last (filter (\<lambda>x. lower x = lower c) (columns df))))"
proof (cases "List.find (\<lambda>c. lower c \<in> lower ` set (columns df)) candidates")
  case None
  then show ?thesis
    by (simp add: find_col_exc_def find_in_find dom_lower_cols)
next
  case (Some c)
  then have "lower c \<in> lower ` set (columns df)"
    by (auto simp: find_Some_iff)
  then have "filter (\<lambda>x. lower x = lower c) (columns df) \<noteq> []"
    by (auto simp: filter_empty_conv)
  with Some show ?thesis
    by (simp add: find_col_exc_def find_in_find dom_lower_cols lower_cols_lookup
          split: list.splits)
qed

lemma find_col_mixed_case_example:
  "find_col_exc mixed_case_df DECISION_COLS = Inr (Some ''DECISION'')"
  by (simp add: mixed_case_df_def find_col_exc_def lower_cols_def lower_def lower_char_def
        DECISION_COLS_def)

subsection \<open>Drift on a small sample\<close>

text \<open>
  C4. For every dataset with fewer than 20 rows, \<open>compute_drift_score\<close> returns exactly
  0.2, whatever the rows hold and whichever columns resolve.
\<close>

theorem drift_small_sample: "len df < 20 \<Longrightarrow> compute_drift_score E df = Fin 0.2"
  by (simp add: compute_drift_score_def Let_def)

theorem drift_small_sample_witness:
  "len nineteen_rows_df < 20 \<and> compute_drift_score example_env nineteen_rows_df = Fin 0.2"
  using drift_small_sample [of nineteen_rows_df example_env]
  by (simp add: len_def nineteen_rows_df_def)

subsection \<open>Toxicity of a blank text column\<close>






subsection \<open>More evaluation helpers\<close>

lemma replicate_numeral [simp]: "replicate (numeral k) x = x # replicate (pred_numeral k) x"
  by (simp add: numeral_eq_Suc)

lemmas find_col_eval = find_col_def find_col_exc_def lower_cols_def lower_def lower_char_def

lemmas column_eval = col_values_def col_of_rows_def get_cell_def astype_str_def

lemma sum_list_indicator:
  "sum_list (map ((\<lambda>b. if b then 1 else 0) \<circ> P) xs) = real (length (filter P xs))"
  by (induction xs) auto

lemma bool_mean_map:
  "bool_mean (map P xs) =
     (if xs = [] then NaN else Fin (real (length (filter P xs)) / real (length xs)))"
  by (simp add: bool_mean_def series_mean_def sum_list_indicator)

subsection \<open>Robustness: the non-determinism signal\<close>

lemma unique_props [simp]: "set (unique xs) = set xs" "distinct (unique xs)"
  by (simp_all add: unique_def)

lemma unique_Nil [simp]: "unique xs = [] \<longleftrightarrow> xs = []"
  by (metis unique_props(1) set_empty)

lemma set_group:
  "set (map cell_key (filter (\<lambda>c. \<not> is_na c)
          (map snd (filter (\<lambda>(k', v). k' = k) (zip keys vals))))) =
   group_decisions keys vals k"
  unfolding group_decisions_def
  by (auto simp: set_zip image_iff)

lemma nunique_group:
  "nunique (map snd (filter (\<lambda>(k', v). k' = k) (zip keys vals))) =
     card (group_decisions keys vals k)"
  unfolding nunique_def length_remdups_card_conv set_group ..

lemma non_deterministic_rate_groups:
  "non_deterministic_rate E df p d =
     split_group_fraction (astype_str E (col_values df p)) (col_values df d)"
proof -
  define keys where "keys = astype_str E (col_values df p)"
  define vals where "vals = col_values df d"
  have g: "groupby_nunique keys vals =
             map (\<lambda>k. card (group_decisions keys vals k)) (unique keys)"
    by (simp add: groupby_nunique_def nunique_group)
  have "length (filter (\<lambda>k. 1 < card (group_decisions keys vals k)) (unique keys)) =
        card {k \<in> set keys. 1 < card (group_decisions keys vals k)}"
    using distinct_card [of "filter (\<lambda>k. 1 < card (group_decisions keys vals k)) (unique keys)"]
    by simp
  moreover have "length (unique keys) = card (set keys)"
    using distinct_card [of "unique keys"] by simp
  ultimately have "bool_mean (map (\<lambda>n. 1 < n) (groupby_nunique keys vals)) =
      split_group_fraction keys vals"
    by (simp add: g split_group_fraction_def comp_def bool_mean_map)
  then show ?thesis
    by (simp add: non_deterministic_rate_def keys_def vals_def)
qed

lemma same_prompt_cols:
  "find_col same_prompt_df PROMPT_COLS = Some ''prompt''"
  "find_col same_prompt_df DECISION_COLS = Some ''decision''"
  "find_col same_prompt_df CONFIDENCE_COLS = None"
  by (simp_all add: same_prompt_df_def find_col_eval PROMPT_COLS_def DECISION_COLS_def
        CONFIDENCE_COLS_def)

lemma same_prompt_code_rate:
  "non_deterministic_rate example_env same_prompt_df ''prompt'' ''decision'' = Fin 0"
  by (simp add: non_deterministic_rate_def groupby_nunique_def nunique_def unique_def
        same_prompt_df_def column_eval bool_mean_def series_mean_def)

lemma same_prompt_spec_rate:
  "spec_non_deterministic_rate example_env same_prompt_df ''prompt'' ''decision'' = Fin 1"
  by (simp add: spec_non_deterministic_rate_def groupby_nunique_def nunique_def unique_def
        same_prompt_df_def column_eval bool_mean_def series_mean_def lower_def lower_char_def
        strip_def is_space_def)

text \<open>
  C7 as the specification states it fails: the code groups the rows by the prompt as
  \<open>astype(str)\<close> renders it and neither trims nor lowercases it. Two rows whose prompts
  differ only in letter case, with different decisions, are one group with two decisions
  for the specification (signal 1) and two groups with one decision each for the code
  (signal 0, and a robustness score of 0).
\<close>

theorem robustness_normalized_prompt_counterexample:
  "find_col same_prompt_df PROMPT_COLS = Some ''prompt'' \<and>
   find_col same_prompt_df DECISION_COLS = Some ''decision'' \<and>
   spec_non_deterministic_rate example_env same_prompt_df ''prompt'' ''decision'' = Fin 1 \<and>
   non_deterministic_rate example_env same_prompt_df ''prompt'' ''decision'' = Fin 0 \<and>
   compute_robustness_score example_env same_prompt_df = Fin 0"
  by (simp add: same_prompt_cols same_prompt_code_rate same_prompt_spec_rate
        compute_robustness_score_def confidence_signals_def truthy_def np_mean_def)

text \<open>
  C7, amended. Whenever both a prompt-like column (aliases prompt, input, query, question)
  and a decision column resolve, the last signal of the averaged robustness score is the
  fraction of groups of rows sharing the same prompt string, as \<open>astype(str)\<close> renders it
  and without trimming or lowercasing, whose rows hold more than one distinct decision
  value that is not missing.
\<close>

theorem robustness_prompt_groups:
  assumes "find_col df PROMPT_COLS = Some prompt_col"
    and "find_col df DECISION_COLS = Some decision_col"
  shows "compute_robustness_score E df =
           np_mean (confidence_signals E df @
                      [split_group_fraction (astype_str E (col_values df prompt_col))
                         (col_values df decision_col)])"
  using find_col_truthy [OF assms(1) no_empty_alias(5)]
        find_col_truthy [OF assms(2) no_empty_alias(1)] assms
  by (simp add: compute_robustness_score_def Let_def non_deterministic_rate_groups)

theorem robustness_prompt_groups_witness:
  "find_col same_prompt_df PROMPT_COLS = Some ''prompt'' \<and>
   find_col same_prompt_df DECISION_COLS = Some ''decision'' \<and>
   compute_robustness_score example_env same_prompt_df =
     np_mean (confidence_signals example_env same_prompt_df @
                [split_group_fraction
                   (astype_str example_env (col_values same_prompt_df ''prompt''))
                   (col_values same_prompt_df ''decision'')])"
  using robustness_prompt_groups [OF same_prompt_cols(1) same_prompt_cols(2), of example_env]
  by (simp add: same_prompt_cols)

subsection \<open>Explainability: the explanation column\<close>

lemma four_of_five_cols:
  "find_col four_of_five_df EXPLANATION_COLS = Some ''explanation''"
  "find_col four_of_five_df CONFIDENCE_COLS = None"
  by (simp_all add: four_of_five_df_def find_col_eval EXPLANATION_COLS_def CONFIDENCE_COLS_def)

lemma four_of_five_texts:
  "astype_str example_env (col_values four_of_five_df ''explanation'') =
     [''income above threshold'', ''income above threshold'', ''income above threshold'',
      ''income above threshold'', []]"
  by (simp add: four_of_five_df_def column_eval)

lemma five_of_five_cols:
  "find_col five_of_five_df EXPLANATION_COLS = Some ''explanation''"
  by (simp add: five_of_five_df_def find_col_eval EXPLANATION_COLS_def)

text \<open>
  C6 as the specification states it fails at exactly 80 per cent: the code tests
  \<open>has_explanation > 0.8\<close>. With five rows of which four hold an explanation longer than
  five characters, and no confidence column, the score is 0.75 and not 0.15.
\<close>

theorem explainability_exactly_80_counterexample:
  "find_col four_of_five_df EXPLANATION_COLS = Some ''explanation'' \<and>
   len four_of_five_df = 5 \<and>
   length (filter (\<lambda>t. 5 < length (strip t))
             (astype_str example_env (col_values four_of_five_df ''explanation''))) = 4 \<and>
   compute_explainability_score example_env four_of_five_df = Fin 0.75"
  by (simp add: four_of_five_cols four_of_five_texts compute_explainability_score_def
        has_explanation_def confidence_explainability_def truthy_def bool_mean_def
        series_mean_def strip_def is_space_def)
    (simp add: four_of_five_df_def len_def)

text \<open>
  C6, amended. For every dataset in which an explanation-like column (aliases explanation,
  reasoning, reason, shap_value, feature_importance) resolves and more than 80 per cent of
  the rows have content that, once rendered by \<open>astype(str)\<close> and stripped, is longer than
  five characters, \<open>compute_explainability_score\<close> returns exactly 0.15, whatever a
  confidence column holds.
\<close>

theorem explainability_explained:
  assumes "find_col df EXPLANATION_COLS = Some col"
    and "4 * len df <
         5 * length (filter (\<lambda>t. 5 < length (strip t)) (astype_str E (col_values df col)))"
  shows "compute_explainability_score E df = Fin 0.15"
proof -
  let ?ts = "astype_str E (col_values df col)"
  let ?c = "length (filter (\<lambda>t. 5 < length (strip t)) ?ts)"
  have n: "length ?ts = len df"
    by (simp add: astype_str_def col_values_def col_of_rows_def len_def)
  have "?c \<le> length ?ts" by simp
  with assms(2) n have pos: "0 < len df" by linarith
  then have ne: "?ts \<noteq> []" using n by auto
  have "filter (\<lambda>t. strip t \<noteq> [] \<and> 5 < length (strip t)) ?ts =
        filter (\<lambda>t. 5 < length (strip t)) ?ts"
    by (rule filter_cong) auto
  then have "has_explanation E df col = Fin (real ?c / real (len df))"
    using ne n by (simp add: has_explanation_def bool_mean_map filter_map comp_def)
  moreover have "0.8 < real ?c / real (len df)"
    using assms(2) pos by (simp add: field_simps)
  ultimately have "fl_gt (has_explanation E df col) (Fin 0.8)" by simp
  then show ?thesis
    using assms(1) find_col_truthy [OF assms(1) no_empty_alias(6)]
    by (simp add: compute_explainability_score_def)
qed

theorem explainability_explained_witness:
  "find_col five_of_five_df EXPLANATION_COLS = Some ''explanation'' \<and>
   4 * len five_of_five_df <
     5 * length (filter (\<lambda>t. 5 < length (strip t))
                   (astype_str example_env (col_values five_of_five_df ''explanation''))) \<and>
   compute_explainability_score example_env five_of_five_df = Fin 0.15"
proof -
  have h: "4 * len five_of_five_df <
     5 * length (filter (\<lambda>t. 5 < length (strip t))
                   (astype_str example_env (col_values five_of_five_df ''explanation'')))"
    by (simp add: five_of_five_df_def len_def column_eval strip_def is_space_def)
  show ?thesis
    using explainability_explained [OF five_of_five_cols h] five_of_five_cols h by simp
qed

subsection \<open>Drift: the decision-rate fallback\<close>

lemma pass_cols:
  "find_col pass_then_rejected_df CONFIDENCE_COLS = None"
  "find_col pass_then_rejected_df DECISION_COLS = Some ''decision''"
  by (simp_all add: pass_then_rejected_df_def find_col_eval CONFIDENCE_COLS_def
        DECISION_COLS_def)

lemma pass_halves:
  "take 10 (rows pass_then_rejected_df) = replicate 10 [''decision'' \<mapsto> StrV ''pass'']"
  "drop 10 (rows pass_then_rejected_df) = replicate 10 [''decision'' \<mapsto> StrV ''rejected'']"
  "len pass_then_rejected_df = 20"
  by (simp_all add: pass_then_rejected_df_def len_def del: replicate_numeral)

lemma pass_code_rates:
  "drift_positive_rate example_env (replicate 10 [''decision'' \<mapsto> StrV ''pass''])
     ''decision'' = Fin 0"
  "drift_positive_rate example_env (replicate 10 [''decision'' \<mapsto> StrV ''rejected''])
     ''decision'' = Fin 0"
  by (simp_all add: drift_positive_rate_def bool_mean_def series_mean_def column_eval
        drift_positive_terms_def lower_def lower_char_def)

lemma pass_spec_rates:
  "spec_positive_rate example_env (replicate 10 [''decision'' \<mapsto> StrV ''pass''])
     ''decision'' = Fin 1"
  "spec_positive_rate example_env (replicate 10 [''decision'' \<mapsto> StrV ''rejected''])
     ''decision'' = Fin 0"
  by (simp_all add: spec_positive_rate_def bool_mean_def series_mean_def column_eval
        positive_terms_def lower_def lower_char_def strip_def is_space_def)

text \<open>
  C5 on the code. The dataset has twenty rows, no confidence column and a decision column:
  ten rows decide pass, then ten decide rejected. With the lexicon and the normalisation of
  the bias metric, as the claim has it, the positive rates of the halves are 1 and 0 and
  the score is min(1 / 0.2, 1) = 1. The code's own lexicon in \<open>compute_drift_score\<close> lacks
  pass (and its normalisation lacks the trim), both rates are 0 and the score is 0.
\<close>

theorem drift_decision_lexicon_failing_input:
  "20 \<le> len pass_then_rejected_df \<and>
   find_col pass_then_rejected_df CONFIDENCE_COLS = None \<and>
   find_col pass_then_rejected_df DECISION_COLS = Some ''decision'' \<and>
   spec_decision_drift example_env pass_then_rejected_df ''decision'' = Fin 1 \<and>
   compute_drift_score example_env pass_then_rejected_df = Fin 0"
  by (simp add: pass_cols pass_halves pass_code_rates pass_spec_rates compute_drift_score_def
        spec_decision_drift_def truthy_def py_min_def del: replicate_numeral)

subsection \<open>The range of the scores\<close>

lemma single_cols:
  "find_col single_confidence_df CONFIDENCE_COLS = Some ''confidence''"
  "find_col single_confidence_df DECISION_COLS = None"
  "find_col single_confidence_df TEXT_OUTPUT_COLS = None"
  "find_col single_confidence_df EXPLANATION_COLS = None"
  "find_col single_confidence_df PROMPT_COLS = None"
  by (simp_all add: single_confidence_df_def find_col_eval CONFIDENCE_COLS_def DECISION_COLS_def
        TEXT_OUTPUT_COLS_def EXPLANATION_COLS_def PROMPT_COLS_def)

lemma single_conf:
  "to_numeric_dropna E (col_values single_confidence_df ''confidence'') = [0.9]"
  by (simp add: single_confidence_df_def col_values_def col_of_rows_def get_cell_def
        to_numeric_dropna_def map_filter_simps)

lemma single_len: "len single_confidence_df = 1"
  by (simp add: len_def single_confidence_df_def)

lemma single_scores:
  "compute_bias_score E single_confidence_df = NaN"
  "compute_hallucination_score E single_confidence_df = Fin 0"
  "compute_toxicity_score E single_confidence_df = Inr (Fin 0.1)"
  "compute_robustness_score E single_confidence_df = NaN"
  "compute_explainability_score E single_confidence_df = NaN"
  "compute_data_leakage_score E single_confidence_df = Fin 0.1"
  "compute_drift_score E single_confidence_df = Fin 0.2"
  by (simp_all add: compute_bias_score_def fallback_bias_def compute_hallucination_score_def
        compute_toxicity_score_def compute_robustness_score_def confidence_signals_def
        compute_explainability_score_def confidence_explainability_def
        compute_data_leakage_score_def compute_drift_score_def single_len
        single_cols single_conf truthy_def series_std_def series_max_def bool_mean_def
        series_mean_def rescale_def py_min_def np_mean_def)

text \<open>
  C1 on the code. The dataset has one row and one column, confidence = 0.9. No decision
  column resolves, so the bias score is \<open>_fallback_bias\<close>: the standard deviation of a
  single value is nan (pandas divides by n - 1), and \<open>min(nan * 2, 1.0)\<close> is nan, because
  Python's \<open>min\<close> keeps its first argument unless the second is smaller. The robustness
  and explainability scores are nan for the same reason. A nan is not within 0.0 and 1.0.
\<close>

theorem scores_nan_failing_input:
  "rows single_confidence_df \<noteq> [] \<and>
   compute_all_scores example_env single_confidence_df =
     Inr [(''bias'', NaN), (''hallucination'', Fin 0), (''toxicity'', Fin 0.1),
          (''robustness'', NaN), (''explainability'', NaN), (''data_leakage'', Fin 0.1),
          (''drift'', Fin 0.2)] \<and>
   \<not> in_unit_interval NaN"
  by (simp add: compute_all_scores_def single_scores round_all_def round_nearest_def Let_def
        in_unit_interval_def)
    (simp add: single_confidence_df_def)

subsection \<open>Toxicity: the classifier and its fallback\<close>

lemma combined_pattern_literal:
  "combined_pattern =
     bs @ ''b(hate|kill|attack|threat|abuse|harass|discriminat|racist|sexist)'' @ bs @ ''b|'' @
     bs @ ''b(idiot|stupid|moron|dumb|worthless|loser)'' @ bs @ ''b|'' @
     bs @ ''b(bomb|weapon|violence|murder)'' @ bs @ ''b''"
  by (simp add: combined_pattern_def toxic_patterns_def)

lemma response_cols:
  "find_col response_df TEXT_OUTPUT_COLS = Some ''response''"
  by (simp add: response_df_def find_col_eval TEXT_OUTPUT_COLS_def)

lemma response_texts:
  "nonempty_texts E response_df ''response'' =
     [''I recommend approval.'', ''They will kill the deal.'']"
  by (simp add: nonempty_texts_def response_df_def column_eval strip_def is_space_def lower_def
        lower_char_def)

text \<open>
  C3 as the specification states it fails: the \<open>try\<close> in \<open>compute_toxicity_score\<close> has the
  single handler \<open>except ImportError\<close>. With a text column that holds non-empty texts and
  a classifier that raises any other error, the error leaves the function and no fallback
  score is returned.
\<close>

theorem toxicity_classifier_error_counterexample:
  "find_col response_df TEXT_OUTPUT_COLS = Some ''response'' \<and>
   nonempty_texts failing_env response_df ''response'' \<noteq> [] \<and>
   detoxify failing_env (take 200 (nonempty_texts failing_env response_df ''response'')) =
     OtherError \<and>
   compute_toxicity_score failing_env response_df = Inl ClassifierError"
  by (simp add: response_cols response_texts compute_toxicity_score_def truthy_def)
    (simp add: failing_env_def example_env_def)

text \<open>
  C3, amended. In \<open>compute_toxicity_score\<close>, when the text column resolves and non-empty
  texts exist: if importing the classifier fails (ImportError: detoxify is not installed),
  the failure is caught at the call site and the function returns the regex fallback
  score, the number of texts in which the case-insensitive search for the alternation of
  the three lexicon patterns (\<open>combined_pattern\<close>) finds a match, each text counted once,
  divided by the number of texts; any other error of the classifier propagates to the
  caller.
\<close>

theorem toxicity_import_error_fallback:
  assumes "find_col df TEXT_OUTPUT_COLS = Some text_col"
    and "texts = nonempty_texts E df text_col"
    and "texts \<noteq> []"
  shows "(detoxify E (take 200 texts) = ImportError \<longrightarrow>
            compute_toxicity_score E df =
              Inr (Fin (real (length (filter (re_search E True combined_pattern) texts)) /
                        real (length texts)))) \<and>
         (detoxify E (take 200 texts) = OtherError \<longrightarrow>
            compute_toxicity_score E df = Inl ClassifierError)"
  using assms find_col_truthy [OF assms(1) no_empty_alias(4)]
  by (simp add: compute_toxicity_score_def Let_def keyword_rate_def)

theorem toxicity_import_error_fallback_witness:
  "find_col response_df TEXT_OUTPUT_COLS = Some ''response'' \<and>
   nonempty_texts example_env response_df ''response'' \<noteq> [] \<and>
   detoxify example_env (take 200 (nonempty_texts example_env response_df ''response'')) =
     ImportError \<and>
   compute_toxicity_score example_env response_df = Inr (Fin (1 / 2))"
proof -
  have ne: "nonempty_texts example_env response_df ''response'' \<noteq> []"
    by (simp add: response_texts)
  have imp: "detoxify example_env
               (take 200 (nonempty_texts example_env response_df ''response'')) = ImportError"
    by (simp add: example_env_def)
  have "real (length (filter (re_search example_env True combined_pattern)
                  (nonempty_texts example_env response_df ''response''))) /
        real (length (nonempty_texts example_env response_df ''response'')) = 1 / 2"
    by (simp add: response_texts) (simp add: example_env_def lower_def lower_char_def)
  with toxicity_import_error_fallback [OF response_cols refl ne] imp ne response_cols
  show ?thesis by simp
qed

subsection \<open>The master function\<close>

lemma toxicity_raises_iff:
  "compute_toxicity_score E df = Inl ClassifierError \<longleftrightarrow> classifier_raises E df"
  by (auto simp: compute_toxicity_score_def classifier_raises_def Let_def
        split: classifier_result.splits)





subsection \<open>Two runs on the same dataset\<close>

lemma nonempty_texts_env [simp]:
  "nonempty_texts (E\<lparr>detoxify := c\<rparr>) df text_col = nonempty_texts E df text_col"
  by (simp add: nonempty_texts_def)

lemma keyword_rate_env [simp]:
  "keyword_rate (E\<lparr>detoxify := c\<rparr>) texts = keyword_rate E texts"
  by (simp add: keyword_rate_def)

lemma protected_gap_env [simp]:
  "protected_gap (E\<lparr>detoxify := c\<rparr>) df b cands = protected_gap E df b cands"
  by (simp add: protected_gap_def Let_def cong: option.case_cong)







lemma round_all_env [simp]: "round_all (E\<lparr>detoxify := c\<rparr>) scores = round_all E scores"
  by (simp add: round_all_def)




end
